theory Spec2Isabelle
  imports Complex_Main "HOL-Library.Char_ord" "HOL-Library.List_Lexorder" "HOL-Library.Multiset"
    "HOL-Library.Log_Nat"
begin

section \<open>Fleet Dashboard API: the data and the handlers of backend/app.py\<close>

text \<open>
  The module holds one literal table (built by \<open>get_fleet_data\<close> as a pandas DataFrame from a
  dict of columns) and four Flask handlers over it. The embedding keeps the handlers' names
  and the pandas calls they make, one definition per call:
  \<^item> a row of the frame is a record of its five columns, the frame a list of rows in index order;
  \<^item> Python values handed to \<open>jsonify\<close> (str, int, float, list, dict) are the datatype
    \<open>pyval\<close>; a dict keeps its items in insertion order, as Python does;
  \<^item> numbers are exact: an integer column is a list of \<open>int\<close>, a float an exact rational or
    NaN. On the literal table this is what pandas computes: its sums are small and its
    means are quarters, which float64 holds exactly. Away from the table int64 wraps
    around and float64 rounds; \<open>summary64\<close> below is the summary with that arithmetic
    written out, and the properties that depend on it are stated of \<open>summary64\<close>;
  \<^item> a response is the JSON payload and the status code; an exception leaving a handler is
    the \<open>Inl\<close> branch of its result.
\<close>

subsection \<open>Python values and responses\<close>

datatype py_error = ValueError

datatype pyval =
    PStr string
  | PInt int
  | PFloat "rat option"
  | PList "pyval list"
  | PDict "(string \<times> pyval) list"

record response =
  body :: pyval
  status :: nat

text \<open>\<open>jsonify(v)\<close> is a response with status 200; \<open>return jsonify(v), code\<close> overrides the status.\<close>

definition jsonify :: "pyval \<Rightarrow> response" where
  "jsonify v = \<lparr>body = v, status = 200\<rparr>"

definition with_status :: "response \<Rightarrow> nat \<Rightarrow> response" where
  "with_status r code = r\<lparr>status := code\<rparr>"

text \<open>Reading a payload back: the value of a dict key.\<close>

fun field :: "string \<Rightarrow> pyval \<Rightarrow> pyval option" where
  "field k (PDict kvs) = map_of kvs k"
| "field k _ = None"

subsection \<open>The frame\<close>

record fleet_row =
  fleet_id :: string
  month :: string
  availability :: int
  missions_completed :: int
  maintenance_hours :: int

type_synonym dataframe = "fleet_row list"

text \<open>The dict \<open>data\<close> of \<open>get_fleet_data\<close>: one list per column.\<close>

record columns =
  col_fleet_id :: "string list"
  col_month :: "string list"
  col_availability :: "int list"
  col_missions_completed :: "int list"
  col_maintenance_hours :: "int list"

definition mk_row :: "string \<times> string \<times> int \<times> int \<times> int \<Rightarrow> fleet_row" where
  "mk_row t = (case t of (f, m, a, c, h) \<Rightarrow>
     \<lparr>fleet_id = f, month = m, availability = a, missions_completed = c,
      maintenance_hours = h\<rparr>)"

text \<open>
  \<open>pd.DataFrame(data)\<close>: row \<open>i\<close> takes the \<open>i\<close>-th entry of every column; columns of
  different lengths raise ValueError.
\<close>

definition DataFrame :: "columns \<Rightarrow> py_error + dataframe" where
  "DataFrame d =
     (let n = length (col_fleet_id d) in
      if length (col_month d) = n \<and> length (col_availability d) = n \<and>
         length (col_missions_completed d) = n \<and> length (col_maintenance_hours d) = n
      then Inr (map mk_row
             (zip (col_fleet_id d) (zip (col_month d) (zip (col_availability d)
               (zip (col_missions_completed d) (col_maintenance_hours d))))))
      else Inl ValueError)"

definition data :: columns where
  "data =
     \<lparr>col_fleet_id = [''F-18'', ''F-18'', ''F-18'', ''F-18'',
                      ''CH-147'', ''CH-147'', ''CH-147'', ''CH-147'',
                      ''CP-140'', ''CP-140'', ''CP-140'', ''CP-140''],
      col_month = concat (replicate 3 [''Jan'', ''Feb'', ''Mar'', ''Apr'']),
      col_availability = [85, 87, 82, 88,
                          72, 75, 78, 80,
                          90, 88, 92, 91],
      col_missions_completed = [45, 52, 38, 55,
                                28, 32, 35, 40,
                                62, 58, 65, 63],
      col_maintenance_hours = [320, 280, 360, 250,
                               450, 420, 380, 350,
                               180, 210, 160, 175]\<rparr>"

definition get_fleet_data :: "py_error + dataframe" where
  "get_fleet_data = DataFrame data"

text \<open>\<open>df.to_dict(orient='records')\<close>: one dict per row, keys in column order.\<close>

definition row_dict :: "fleet_row \<Rightarrow> pyval" where
  "row_dict r =
     PDict [(''fleet_id'', PStr (fleet_id r)), (''month'', PStr (month r)),
            (''availability'', PInt (availability r)),
            (''missions_completed'', PInt (missions_completed r)),
            (''maintenance_hours'', PInt (maintenance_hours r))]"

definition to_dict_records :: "dataframe \<Rightarrow> pyval list" where
  "to_dict_records df = map row_dict df"

subsection \<open>Route 1: health check\<close>

definition home :: response where
  "home = jsonify (PDict [(''status'', PStr ''online''), (''message'', PStr ''Fleet Dashboard API'')])"

subsection \<open>Route 2: all fleet data\<close>

definition all_fleet_data_on :: "dataframe \<Rightarrow> response" where
  "all_fleet_data_on df = jsonify (PList (to_dict_records df))"

definition get_all_fleet_data :: "py_error + response" where
  "get_all_fleet_data =
     (case get_fleet_data of Inl e \<Rightarrow> Inl e | Inr df \<Rightarrow> Inr (all_fleet_data_on df))"

subsection \<open>Route 3: summary per fleet\<close>

text \<open>
  \<open>df.groupby('fleet_id')\<close>: the group keys are the distinct values of the column, sorted
  ascending (pandas' default \<open>sort=True\<close>; Python orders strings by code point, which is the
  lexicographic order on the characters); a group holds the rows with that key, in frame order.
\<close>

definition group_keys :: "dataframe \<Rightarrow> string list" where
  "group_keys df = sort (remdups (map fleet_id df))"

definition get_group :: "dataframe \<Rightarrow> string \<Rightarrow> dataframe" where
  "get_group df k = filter (\<lambda>r. fleet_id r = k) df"

text \<open>The mean of a column of a group, computed exactly: NaN on no values.\<close>

definition mean :: "int list \<Rightarrow> rat option" where
  "mean xs = (if xs = [] then None else Some (of_int (sum_list xs) / of_nat (length xs)))"

text \<open>
  The aggregated frame, one row per key. Its columns are named \<open>availability\<close>,
  \<open>missions_completed\<close>, \<open>maintenance_hours\<close> under the index \<open>fleet_id\<close> until the handler
  relabels them; the record carries the final labels.
\<close>

record summary_row =
  summary_fleet_id :: string
  avg_availability :: "rat option"
  total_missions :: int
  total_maintenance_hours :: int

definition agg :: "dataframe \<Rightarrow> summary_row list" where
  "agg df =
     map (\<lambda>k. let g = get_group df k in
            \<lparr>summary_fleet_id = k,
             avg_availability = mean (map availability g),
             total_missions = sum_list (map missions_completed g),
             total_maintenance_hours = sum_list (map maintenance_hours g)\<rparr>)
         (group_keys df)"

text \<open>
  \<open>.round(1)\<close> is numpy's rounding: scale by 10, round to the nearest integer with ties
  going to the even one, scale back. NaN stays NaN and the integer columns stay as they are.
\<close>

definition rint :: "rat \<Rightarrow> int" where
  "rint x =
     (let f = \<lfloor>x\<rfloor>; d = x - of_int f in
      if d < 1 / 2 then f
      else if 1 / 2 < d then f + 1
      else if even f then f else f + 1)"

definition round1 :: "rat \<Rightarrow> rat" where
  "round1 x = of_int (rint (x * 10)) / 10"

definition round_frame :: "summary_row list \<Rightarrow> summary_row list" where
  "round_frame rows =
     map (\<lambda>r. r\<lparr>avg_availability := map_option round1 (avg_availability r)\<rparr>) rows"

text \<open>\<open>reset_index()\<close>, the relabelling of the columns and \<open>to_dict(orient='records')\<close>.\<close>

definition summary_dict :: "summary_row \<Rightarrow> pyval" where
  "summary_dict r =
     PDict [(''fleet_id'', PStr (summary_fleet_id r)),
            (''avg_availability'', PFloat (avg_availability r)),
            (''total_missions'', PInt (total_missions r)),
            (''total_maintenance_hours'', PInt (total_maintenance_hours r))]"

definition summary :: "dataframe \<Rightarrow> summary_row list" where
  "summary df = round_frame (agg df)"

definition fleet_summary_on :: "dataframe \<Rightarrow> response" where
  "fleet_summary_on df = jsonify (PList (map summary_dict (summary df)))"

definition get_fleet_summary :: "py_error + response" where
  "get_fleet_summary =
     (case get_fleet_data of Inl e \<Rightarrow> Inl e | Inr df \<Rightarrow> Inr (fleet_summary_on df))"

subsection \<open>Route 4: one fleet\<close>

text \<open>
  \<open>df[df['fleet_id'] == fleet_id]\<close> keeps the rows whose key equals the URL parameter, as
  Python compares strings; an empty selection is answered with the error payload and 404.
\<close>

definition single_fleet_on :: "dataframe \<Rightarrow> string \<Rightarrow> response" where
  "single_fleet_on df fid =
     (let fleet_df = filter (\<lambda>r. fleet_id r = fid) df in
      if fleet_df = [] then with_status (jsonify (PDict [(''error'', PStr ''Fleet not found'')])) 404
      else jsonify (PList (to_dict_records fleet_df)))"

definition get_single_fleet :: "string \<Rightarrow> py_error + response" where
  "get_single_fleet fid =
     (case get_fleet_data of Inl e \<Rightarrow> Inl e | Inr df \<Rightarrow> Inr (single_fleet_on df fid))"

subsection \<open>The rounding the specification leaves open\<close>

text \<open>
  The specification names round-half-up as the alternative to the ties-to-even rounding
  that \<open>rint\<close> performs. It is defined here from the specification's words, to be compared
  with \<open>round1\<close>.
\<close>

definition spec_round1_half_up :: "rat \<Rightarrow> rat" where
  "spec_round1_half_up x = of_int \<lfloor>x * 10 + 1 / 2\<rfloor> / 10"

subsection \<open>The summary in machine arithmetic\<close>

text \<open>
  The definitions above compute the sums and the mean exactly. pandas computes them in
  int64 and float64, and this section writes that arithmetic out.

  \<open>f64 x\<close> is the float64 nearest to \<open>x\<close>: 53 significant bits, a tie going to the even
  significand, which is how every float64 operation rounds its exact result. The exponent
  range is left out (no overflow, no subnormal numbers).
\<close>

definition pow2 :: "int \<Rightarrow> rat" where
  "pow2 k = (if 0 \<le> k then 2 ^ nat k else 1 / 2 ^ nat (- k))"

text \<open>The exponent of a positive number: the \<open>e\<close> with \<open>2 ^ e \<le> x < 2 ^ (e + 1)\<close>.\<close>

definition exponent :: "rat \<Rightarrow> int" where
  "exponent x = (if 1 \<le> x then bitlen \<lfloor>x\<rfloor> - 1 else - bitlen (\<lceil>1 / x\<rceil> - 1))"

definition f64 :: "rat \<Rightarrow> rat" where
  "f64 x =
     (if x = 0 then 0
      else let u = pow2 (exponent \<bar>x\<bar> - 52) in of_int (rint (x / u)) * u)"

text \<open>An int64 sum wraps around.\<close>

definition int64 :: "int \<Rightarrow> int" where
  "int64 n = (n + 2 ^ 63) mod 2 ^ 64 - 2 ^ 63"

text \<open>
  The group mean of pandas: the int64 values are converted to float64 and added up with a
  running compensation (Kahan summation), one float64 operation at a time; the sum is then
  divided by the number of values.
\<close>

definition kahan_step :: "rat \<times> rat \<Rightarrow> rat \<Rightarrow> rat \<times> rat" where
  "kahan_step s v =
     (case s of (sumx, compensation) \<Rightarrow>
        let y = f64 (v - compensation);
            t = f64 (sumx + y)
        in (t, f64 (f64 (t - sumx) - y)))"

definition group_mean :: "int list \<Rightarrow> rat option" where
  "group_mean xs =
     (if xs = [] then None
      else Some (f64 (fst (foldl kahan_step (0, 0) (map (\<lambda>v. f64 (of_int v)) xs))
                      / f64 (of_nat (length xs)))))"

definition agg64 :: "dataframe \<Rightarrow> summary_row list" where
  "agg64 df =
     map (\<lambda>k. let g = get_group df k in
            \<lparr>summary_fleet_id = k,
             avg_availability = group_mean (map availability g),
             total_missions = int64 (sum_list (map missions_completed g)),
             total_maintenance_hours = int64 (sum_list (map maintenance_hours g))\<rparr>)
         (group_keys df)"

text \<open>numpy's rounding to one decimal on a float64: the product, and the quotient, are float64.\<close>

definition np_round1 :: "rat \<Rightarrow> rat" where
  "np_round1 x = f64 (of_int (rint (f64 (x * 10))) / 10)"

definition summary64 :: "dataframe \<Rightarrow> summary_row list" where
  "summary64 df =
     map (\<lambda>r. r\<lparr>avg_availability := map_option np_round1 (avg_availability r)\<rparr>) (agg64 df)"

subsection \<open>Observations used by the properties\<close>

text \<open>The frame every handler works on: what \<open>get_fleet_data\<close> returns.\<close>

definition fleet_dataset :: dataframe where
  "fleet_dataset = (case get_fleet_data of Inl e \<Rightarrow> [] | Inr df \<Rightarrow> df)"

text \<open>A client reading one record of the listing back from its five keys.\<close>

definition dict_row :: "pyval \<Rightarrow> fleet_row option" where
  "dict_row d =
     (case field ''fleet_id'' d of
        Some (PStr f) \<Rightarrow>
          (case field ''month'' d of
             Some (PStr m) \<Rightarrow>
               (case field ''availability'' d of
                  Some (PInt a) \<Rightarrow>
                    (case field ''missions_completed'' d of
                       Some (PInt c) \<Rightarrow>
                         (case field ''maintenance_hours'' d of
                            Some (PInt h) \<Rightarrow>
                              Some \<lparr>fleet_id = f, month = m, availability = a,
                                    missions_completed = c, maintenance_hours = h\<rparr>
                          | _ \<Rightarrow> None)
                     | _ \<Rightarrow> None)
                | _ \<Rightarrow> None)
           | _ \<Rightarrow> None)
      | _ \<Rightarrow> None)"

section \<open>Properties\<close>

subsection \<open>The literal table\<close>

lemma get_fleet_data_rows:
  "get_fleet_data = Inr
    [\<lparr>fleet_id = ''F-18'', month = ''Jan'', availability = 85, missions_completed = 45, maintenance_hours = 320\<rparr>,
     \<lparr>fleet_id = ''F-18'', month = ''Feb'', availability = 87, missions_completed = 52, maintenance_hours = 280\<rparr>,
     \<lparr>fleet_id = ''F-18'', month = ''Mar'', availability = 82, missions_completed = 38, maintenance_hours = 360\<rparr>,
     \<lparr>fleet_id = ''F-18'', month = ''Apr'', availability = 88, missions_completed = 55, maintenance_hours = 250\<rparr>,
     \<lparr>fleet_id = ''CH-147'', month = ''Jan'', availability = 72, missions_completed = 28, maintenance_hours = 450\<rparr>,
     \<lparr>fleet_id = ''CH-147'', month = ''Feb'', availability = 75, missions_completed = 32, maintenance_hours = 420\<rparr>,
     \<lparr>fleet_id = ''CH-147'', month = ''Mar'', availability = 78, missions_completed = 35, maintenance_hours = 380\<rparr>,
     \<lparr>fleet_id = ''CH-147'', month = ''Apr'', availability = 80, missions_completed = 40, maintenance_hours = 350\<rparr>,
     \<lparr>fleet_id = ''CP-140'', month = ''Jan'', availability = 90, missions_completed = 62, maintenance_hours = 180\<rparr>,
     \<lparr>fleet_id = ''CP-140'', month = ''Feb'', availability = 88, missions_completed = 58, maintenance_hours = 210\<rparr>,
     \<lparr>fleet_id = ''CP-140'', month = ''Mar'', availability = 92, missions_completed = 65, maintenance_hours = 160\<rparr>,
     \<lparr>fleet_id = ''CP-140'', month = ''Apr'', availability = 91, missions_completed = 63, maintenance_hours = 175\<rparr>]"
  by (simp add: get_fleet_data_def DataFrame_def data_def mk_row_def numeral_3_eq_3)

lemma fleet_dataset_rows:
  "fleet_dataset =
    [\<lparr>fleet_id = ''F-18'', month = ''Jan'', availability = 85, missions_completed = 45, maintenance_hours = 320\<rparr>,
     \<lparr>fleet_id = ''F-18'', month = ''Feb'', availability = 87, missions_completed = 52, maintenance_hours = 280\<rparr>,
     \<lparr>fleet_id = ''F-18'', month = ''Mar'', availability = 82, missions_completed = 38, maintenance_hours = 360\<rparr>,
     \<lparr>fleet_id = ''F-18'', month = ''Apr'', availability = 88, missions_completed = 55, maintenance_hours = 250\<rparr>,
     \<lparr>fleet_id = ''CH-147'', month = ''Jan'', availability = 72, missions_completed = 28, maintenance_hours = 450\<rparr>,
     \<lparr>fleet_id = ''CH-147'', month = ''Feb'', availability = 75, missions_completed = 32, maintenance_hours = 420\<rparr>,
     \<lparr>fleet_id = ''CH-147'', month = ''Mar'', availability = 78, missions_completed = 35, maintenance_hours = 380\<rparr>,
     \<lparr>fleet_id = ''CH-147'', month = ''Apr'', availability = 80, missions_completed = 40, maintenance_hours = 350\<rparr>,
     \<lparr>fleet_id = ''CP-140'', month = ''Jan'', availability = 90, missions_completed = 62, maintenance_hours = 180\<rparr>,
     \<lparr>fleet_id = ''CP-140'', month = ''Feb'', availability = 88, missions_completed = 58, maintenance_hours = 210\<rparr>,
     \<lparr>fleet_id = ''CP-140'', month = ''Mar'', availability = 92, missions_completed = 65, maintenance_hours = 160\<rparr>,
     \<lparr>fleet_id = ''CP-140'', month = ''Apr'', availability = 91, missions_completed = 63, maintenance_hours = 175\<rparr>]"
  by (simp add: fleet_dataset_def get_fleet_data_rows)

text \<open>The constructor does not raise on the literal columns: the provider has no failure mode.\<close>

lemma get_fleet_data_ok: "get_fleet_data = Inr fleet_dataset"
  by (simp add: fleet_dataset_rows get_fleet_data_rows)

lemma handlers_on_dataset:
  "get_all_fleet_data = Inr (all_fleet_data_on fleet_dataset)"
  "get_fleet_summary = Inr (fleet_summary_on fleet_dataset)"
  "get_single_fleet fid = Inr (single_fleet_on fleet_dataset fid)"
  by (simp_all add: get_all_fleet_data_def get_fleet_summary_def get_single_fleet_def
      get_fleet_data_ok)

lemma dict_row_row_dict: "dict_row (row_dict r) = Some r"
  by (simp add: dict_row_def row_dict_def)

lemma read_back_records: "map dict_row (to_dict_records df) = map Some df"
  by (simp add: to_dict_records_def dict_row_row_dict)

subsection \<open>Grouping\<close>

lemma summary_ids: "map summary_fleet_id (summary df) = group_keys df"
  by (simp add: summary_def round_frame_def agg_def Let_def comp_def)

lemma set_group_keys: "set (group_keys df) = fleet_id ` set df"
  by (simp add: group_keys_def)

lemma distinct_group_keys: "distinct (group_keys df)"
  by (simp add: group_keys_def)

lemma sorted_group_keys: "sorted (group_keys df)"
  by (simp add: group_keys_def)

text \<open>No group is empty, so no mean of the summary is NaN.\<close>

lemma group_nonempty: "k \<in> set (group_keys df) \<Longrightarrow> get_group df k \<noteq> []"
  by (auto simp: set_group_keys get_group_def filter_empty_conv)

lemma group_keys_dataset: "group_keys fleet_dataset = [''CH-147'', ''CP-140'', ''F-18'']"
  by (simp add: group_keys_def fleet_dataset_rows)

lemma summary_dataset:
  "summary fleet_dataset =
     [\<lparr>summary_fleet_id = ''CH-147'', avg_availability = Some (381 / 5),
       total_missions = 135, total_maintenance_hours = 1600\<rparr>,
      \<lparr>summary_fleet_id = ''CP-140'', avg_availability = Some (451 / 5),
       total_missions = 248, total_maintenance_hours = 725\<rparr>,
      \<lparr>summary_fleet_id = ''F-18'', avg_availability = Some (171 / 2),
       total_missions = 190, total_maintenance_hours = 1210\<rparr>]"
  by code_simp

subsection \<open>Reordering the rows\<close>




subsection \<open>Ties-to-even against half-up\<close>

text \<open>
  The two roundings to one decimal differ exactly on a tie whose lower neighbour is even.
\<close>

lemma round_modes_differ:
  "(round1 x \<noteq> spec_round1_half_up x) =
   (x * 10 - of_int \<lfloor>x * 10\<rfloor> = 1 / 2 \<and> even \<lfloor>x * 10\<rfloor>)"
proof -
  define y where "y = x * 10"
  define f where "f = \<lfloor>y\<rfloor>"
  define d where "d = y - of_int f"
  have d0: "0 \<le> d" and d1: "d < 1"
    unfolding d_def f_def by linarith+
  have y: "y = of_int f + d"
    by (simp add: d_def)
  have up: "\<lfloor>y + 1 / 2\<rfloor> = (if d < 1 / 2 then f else f + 1)"
  proof (cases "d < 1 / 2")
    case True
    then have "\<lfloor>y + 1 / 2\<rfloor> = f"
      using d0 y by (intro floor_unique) auto
    with True show ?thesis by simp
  next
    case False
    then have "\<lfloor>y + 1 / 2\<rfloor> = f + 1"
      using d1 y by (intro floor_unique) auto
    with False show ?thesis by simp
  qed
  have "(rint y \<noteq> \<lfloor>y + 1 / 2\<rfloor>) = (d = 1 / 2 \<and> even f)"
    unfolding up rint_def Let_def f_def [symmetric] d_def [symmetric]
    by (auto simp: not_less)
  then show ?thesis
    by (simp add: round1_def spec_round1_half_up_def y_def [symmetric] f_def [symmetric]
        d_def [symmetric])
qed

subsection \<open>Machine arithmetic\<close>

text \<open>Evaluating \<open>f64\<close> at a numeral.\<close>

lemma floor_rat_numeral: "\<lfloor>numeral a / numeral b :: rat\<rfloor> = numeral a div numeral b"
  by (metis floor_divide_of_int_eq of_int_numeral)

lemma floor_rat_neg_numeral:
  "\<lfloor>- (numeral a / numeral b) :: rat\<rfloor> = - numeral a div numeral b"
  by (metis floor_divide_of_int_eq of_int_numeral of_int_minus minus_divide_left)

lemma ceiling_rat_numeral: "\<lceil>numeral a / numeral b :: rat\<rceil> = - (- numeral a div numeral b)"
  unfolding ceiling_def by (simp add: floor_rat_neg_numeral)

lemma bitlen_Bit0: "bitlen (numeral (Num.Bit0 n)) = bitlen (numeral n) + 1"
  by (subst compute_bitlen) simp

lemma bitlen_Bit1: "bitlen (numeral (Num.Bit1 n)) = bitlen (numeral n) + 1"
  by (subst compute_bitlen) simp

lemma bitlen_One: "bitlen 1 = 1" "bitlen Numeral1 = 1"
  by (subst compute_bitlen, simp)+

lemmas f64_eval = f64_def exponent_def pow2_def rint_def Let_def floor_rat_numeral
  floor_rat_neg_numeral ceiling_rat_numeral bitlen_Bit0 bitlen_Bit1 bitlen_One

lemma f64_zero: "f64 0 = 0"
  by (simp add: f64_def)

lemma rint_of_int: "rint (of_int k) = k"
  by (simp add: rint_def)

text \<open>\<open>exponent\<close> brackets a positive number between two powers of 2.\<close>

lemma pow2_nonneg: "0 \<le> j \<Longrightarrow> pow2 j = 2 ^ nat j"
  by (simp add: pow2_def)

lemma exponent_bounds:
  assumes "0 < x"
  shows "pow2 (exponent x) \<le> x \<and> x < pow2 (exponent x + 1)"
proof (cases "1 \<le> x")
  case True
  define n where "n = \<lfloor>x\<rfloor>"
  have n: "0 < n"
    using True by (simp add: n_def)
  then have len: "1 \<le> bitlen n"
    using bitlen_eq_zero_iff [of n] bitlen_nonneg [of n] by linarith
  have e: "exponent x = bitlen n - 1"
    using True by (simp add: exponent_def n_def)
  from bitlen_bounds [OF n] have lo: "2 ^ nat (bitlen n - 1) \<le> n" and hi: "n + 1 \<le> 2 ^ nat (bitlen n)"
    by auto
  have "(2::rat) ^ nat (bitlen n - 1) = of_int (2 ^ nat (bitlen n - 1))"
    by simp
  also have "\<dots> \<le> of_int n"
    using lo by (simp only: of_int_le_iff)
  also have "\<dots> \<le> x"
    by (simp add: n_def)
  finally have low: "pow2 (exponent x) \<le> x"
    using len by (simp add: e pow2_nonneg)
  have "x < of_int (n + 1)"
    unfolding n_def by linarith
  also have "\<dots> \<le> of_int (2 ^ nat (bitlen n))"
    using hi by (simp only: of_int_le_iff)
  also have "\<dots> = (2::rat) ^ nat (bitlen n)"
    by simp
  finally have "x < pow2 (exponent x + 1)"
    using len by (simp add: e pow2_nonneg)
  with low show ?thesis ..
next
  case False
  define m where "m = \<lceil>1 / x\<rceil>"
  define k where "k = bitlen (m - 1)"
  have y: "1 < 1 / x"
    using False assms by (simp add: field_simps)
  then have m: "0 < m - 1"
    unfolding m_def by linarith
  then have k: "1 \<le> k"
    using bitlen_eq_zero_iff [of "m - 1"] bitlen_nonneg [of "m - 1"] by (simp add: k_def)
  have e: "exponent x = - k"
    using False by (simp add: exponent_def m_def k_def)
  from bitlen_bounds [OF m] have lo: "2 ^ nat (k - 1) \<le> m - 1" and hi: "m \<le> 2 ^ nat k"
    by (auto simp: k_def)
  have "1 / x \<le> of_int m"
    by (simp add: m_def)
  also have "\<dots> \<le> of_int (2 ^ nat k)"
    using hi by (simp only: of_int_le_iff)
  also have "\<dots> = (2::rat) ^ nat k"
    by simp
  finally have "1 / 2 ^ nat k \<le> x"
    using assms by (simp add: field_simps)
  then have low: "pow2 (exponent x) \<le> x"
    using k by (simp add: e pow2_def)
  have "(2::rat) ^ nat (k - 1) = of_int (2 ^ nat (k - 1))"
    by simp
  also have "\<dots> \<le> of_int (m - 1)"
    using lo by (simp only: of_int_le_iff)
  also have "\<dots> < 1 / x"
    unfolding m_def by linarith
  finally have up: "x < 1 / 2 ^ nat (k - 1)"
    using assms by (simp add: field_simps)
  have "pow2 (exponent x + 1) = 1 / 2 ^ nat (k - 1)"
    using k by (cases "k = 1") (simp_all add: e pow2_def)
  with up have "x < pow2 (exponent x + 1)"
    by simp
  with low show ?thesis ..
qed

text \<open>The integers from 0 up to \<open>2 ^ 53\<close> are float64 values.\<close>

lemma pow2_nonpos: "j \<le> 0 \<Longrightarrow> pow2 j = 1 / 2 ^ nat (- j)"
  by (cases "j = 0") (simp_all add: pow2_def)

lemma exponent_of_int:
  assumes "0 < n" and "n < 2 ^ 53"
  shows "exponent (of_int n) \<le> 52"
proof -
  have "bitlen n \<le> 53"
    using assms by (simp add: bitlen_le_iff_power)
  moreover have "(1::rat) \<le> of_int n"
    using assms by simp
  ultimately show ?thesis
    by (simp add: exponent_def)
qed

lemma f64_of_int:
  assumes "0 \<le> n" and "n < 2 ^ 53"
  shows "f64 (of_int n) = of_int n"
proof (cases "n = 0")
  case True
  then show ?thesis by (simp add: f64_zero)
next
  case False
  with assms have pos: "0 < n" by simp
  define j where "j = exponent (of_int n) - 52"
  have "j \<le> 0"
    using exponent_of_int [OF pos assms(2)] by (simp add: j_def)
  then have u: "pow2 j = 1 / 2 ^ nat (- j)"
    by (rule pow2_nonpos)
  have "of_int n / pow2 j = (of_int (n * 2 ^ nat (- j)) :: rat)"
    by (simp add: u)
  then have "rint (of_int n / pow2 j) = n * 2 ^ nat (- j)"
    by (simp only: rint_of_int)
  then have "of_int (rint (of_int n / pow2 j)) * pow2 j = (of_int n :: rat)"
    by (simp add: u)
  with pos show ?thesis
    by (simp add: f64_def Let_def j_def)
qed

lemma f64_numeral: "numeral k < (2::int) ^ 53 \<Longrightarrow> f64 (numeral k) = numeral k"
  using f64_of_int [of "numeral k"] by simp







text \<open>
  On the literal table the machine summary is the exact one, with each rounded mean held as
  the float64 nearest to it.
\<close>

lemma f64_dataset_values:
  "f64 (171 / 2) = 171 / 2"
  "f64 (305 / 4) = 305 / 4"
  "f64 (361 / 4) = 361 / 4"
  "f64 (1525 / 2) = 1525 / 2"
  "f64 (1805 / 2) = 1805 / 2"
  "f64 (381 / 5) = 5362098306337997 / 70368744177664"
  "f64 (451 / 5) = 6347260724825293 / 70368744177664"
  by (simp_all add: f64_eval)

lemma rint_dataset_values:
  "rint 855 = 855"
  "rint (1525 / 2) = 762"
  "rint (1805 / 2) = 902"
  by (simp_all add: rint_def Let_def floor_rat_numeral)

lemma summary64_dataset:
  "summary64 fleet_dataset =
     [\<lparr>summary_fleet_id = ''CH-147'', avg_availability = Some (f64 (381 / 5)),
       total_missions = 135, total_maintenance_hours = 1600\<rparr>,
      \<lparr>summary_fleet_id = ''CP-140'', avg_availability = Some (f64 (451 / 5)),
       total_missions = 248, total_maintenance_hours = 725\<rparr>,
      \<lparr>summary_fleet_id = ''F-18'', avg_availability = Some (f64 (171 / 2)),
       total_missions = 190, total_maintenance_hours = 1210\<rparr>]"
proof -
  have "agg64 fleet_dataset =
     [\<lparr>summary_fleet_id = ''CH-147'', avg_availability = Some (305 / 4),
       total_missions = 135, total_maintenance_hours = 1600\<rparr>,
      \<lparr>summary_fleet_id = ''CP-140'', avg_availability = Some (361 / 4),
       total_missions = 248, total_maintenance_hours = 725\<rparr>,
      \<lparr>summary_fleet_id = ''F-18'', avg_availability = Some (171 / 2),
       total_missions = 190, total_maintenance_hours = 1210\<rparr>]"
    unfolding agg64_def group_keys_dataset
    by (simp add: fleet_dataset_rows get_group_def group_mean_def kahan_step_def int64_def
        f64_numeral f64_zero f64_dataset_values)
  then show ?thesis
    by (simp add: summary64_def np_round1_def f64_numeral f64_dataset_values
        rint_dataset_values)
qed

lemma summary64_dataset_exact:
  "summary64 fleet_dataset =
     map (\<lambda>r. r\<lparr>avg_availability := map_option f64 (avg_availability r)\<rparr>)
       (summary fleet_dataset)"
  by (simp add: summary64_dataset summary_dataset)




section \<open>The claims\<close>

text \<open>
  C1. The summary endpoint answers with exactly 3 rows, and the row of fleet \<open>F-18\<close> has
  \<open>avg_availability = 85.5\<close>, \<open>total_missions = 190\<close> and
  \<open>total_maintenance_hours = 1210\<close>.
\<close>

theorem fleet_summary_f18:
  "\<exists>rows. get_fleet_summary = Inr \<lparr>body = PList rows, status = 200\<rparr> \<and>
     length rows = 3 \<and>
     filter (\<lambda>d. field ''fleet_id'' d = Some (PStr ''F-18'')) rows =
       [PDict [(''fleet_id'', PStr ''F-18''),
               (''avg_availability'', PFloat (Some (855 / 10))),
               (''total_missions'', PInt 190),
               (''total_maintenance_hours'', PInt 1210)]]"
  by (simp add: handlers_on_dataset fleet_summary_on_def jsonify_def summary_dataset
      summary_dict_def)

text \<open>
  C2, as stated: for every fleet of the literal table, rounding the mean availability to one
  decimal gives the same value under ties-to-even and under half-up. This fails: the mean of
  \<open>CH-147\<close> is 76.25, an exact tie at the first decimal, and the two roundings part there.
\<close>

theorem rounding_tie_counterexample:
  "''CH-147'' \<in> set (map fleet_id fleet_dataset) \<and>
   mean (map availability (get_group fleet_dataset ''CH-147'')) = Some (7625 / 100) \<and>
   round1 (7625 / 100) \<noteq> spec_round1_half_up (7625 / 100)"
  by code_simp

text \<open>
  C2, amended: of the three fleets only \<open>F-18\<close> (mean 85.5) rounds the same way under both
  modes. The means of \<open>CH-147\<close> (76.25) and \<open>CP-140\<close> (90.25) are exact ties at the first
  decimal: ties-to-even, which the summary uses, gives 76.2 and 90.2, and half-up would give
  76.3 and 90.3.
\<close>

theorem rounding_of_dataset_means:
  "map (\<lambda>k. mean (map availability (get_group fleet_dataset k))) [''F-18'', ''CH-147'', ''CP-140'']
     = [Some (8550 / 100), Some (7625 / 100), Some (9025 / 100)] \<and>
   round1 (8550 / 100) = 855 / 10 \<and> spec_round1_half_up (8550 / 100) = 855 / 10 \<and>
   round1 (7625 / 100) = 762 / 10 \<and> spec_round1_half_up (7625 / 100) = 763 / 10 \<and>
   round1 (9025 / 100) = 902 / 10 \<and> spec_round1_half_up (9025 / 100) = 903 / 10 \<and>
   map (\<lambda>r. (summary_fleet_id r, avg_availability r)) (summary fleet_dataset) =
     [(''CH-147'', Some (762 / 10)), (''CP-140'', Some (902 / 10)), (''F-18'', Some (855 / 10))]"
  by code_simp

text \<open>
  C3. For every \<open>fleet_id\<close> the lookup answers (it does not raise); the records it returns
  are exactly the rows of the table whose \<open>fleet_id\<close> equals the input as a string, in table
  order; and the answer is status 404, with the body \<open>{"error": "Fleet not found"}\<close>, exactly
  when no row matches.
\<close>

theorem single_fleet_lookup:
  "\<exists>resp. get_single_fleet fid = Inr resp \<and>
     (if filter (\<lambda>r. fleet_id r = fid) fleet_dataset = []
      then resp = \<lparr>body = PDict [(''error'', PStr ''Fleet not found'')], status = 404\<rparr>
      else status resp = 200 \<and>
        (\<exists>rows. body resp = PList rows \<and>
           map dict_row rows = map Some (filter (\<lambda>r. fleet_id r = fid) fleet_dataset))) \<and>
     (status resp = 404) = (filter (\<lambda>r. fleet_id r = fid) fleet_dataset = []) \<and>
     (body resp = PDict [(''error'', PStr ''Fleet not found'')]) =
       (filter (\<lambda>r. fleet_id r = fid) fleet_dataset = [])"
  by (simp add: handlers_on_dataset single_fleet_on_def Let_def jsonify_def with_status_def
      read_back_records)

text \<open>
  The lookup at an unknown key, at a key that differs from a stored one in case only, and at
  a stored key.
\<close>

theorem single_fleet_lookup_witness:
  "get_single_fleet ''UNKNOWN'' =
     Inr \<lparr>body = PDict [(''error'', PStr ''Fleet not found'')], status = 404\<rparr> \<and>
   get_single_fleet ''f-18'' =
     Inr \<lparr>body = PDict [(''error'', PStr ''Fleet not found'')], status = 404\<rparr> \<and>
   (\<exists>resp rows. get_single_fleet ''F-18'' = Inr resp \<and> status resp = 200 \<and>
      body resp = PList rows \<and> map dict_row rows = map Some (take 4 fleet_dataset))"
  using single_fleet_lookup [of "''UNKNOWN''"] single_fleet_lookup [of "''f-18''"]
    single_fleet_lookup [of "''F-18''"]
  by (auto simp add: fleet_dataset_rows)

text \<open>
  C4. The listing endpoint answers with exactly 12 records; the \<open>fleet_id\<close> values occurring
  in them are exactly \<open>F-18\<close>, \<open>CH-147\<close> and \<open>CP-140\<close>, and each occurs in exactly 4
  records.
\<close>

theorem fleet_data_listing:
  "\<exists>rows. get_all_fleet_data = Inr \<lparr>body = PList rows, status = 200\<rparr> \<and>
     length rows = 12 \<and>
     set (map (field ''fleet_id'') rows) =
       {Some (PStr ''F-18''), Some (PStr ''CH-147''), Some (PStr ''CP-140'')} \<and>
     length (filter (\<lambda>d. field ''fleet_id'' d = Some (PStr ''F-18'')) rows) = 4 \<and>
     length (filter (\<lambda>d. field ''fleet_id'' d = Some (PStr ''CH-147'')) rows) = 4 \<and>
     length (filter (\<lambda>d. field ''fleet_id'' d = Some (PStr ''CP-140'')) rows) = 4"
  by (simp add: handlers_on_dataset all_fleet_data_on_def jsonify_def to_dict_records_def
      row_dict_def fleet_dataset_rows insert_commute)

text \<open>
  C5. Listing is the identity on the frame: on any frame the records of the answer, read
  back, are the rows of the frame, unchanged and in the same order; and the endpoint lists
  the frame that \<open>get_fleet_data\<close> returns.
\<close>

theorem list_all_identity:
  "status (all_fleet_data_on df) = 200 \<and>
   (\<exists>rows. body (all_fleet_data_on df) = PList rows \<and> map dict_row rows = map Some df) \<and>
   get_fleet_data = Inr fleet_dataset \<and>
   get_all_fleet_data = Inr (all_fleet_data_on fleet_dataset)"
  by (simp add: all_fleet_data_on_def jsonify_def read_back_records get_fleet_data_ok
      handlers_on_dataset)

text \<open>
  C6. On any frame, the \<open>fleet_id\<close> values of the summary rows are pairwise distinct and are
  exactly the \<open>fleet_id\<close> values of the frame's rows: a fleet of the frame has exactly one
  summary row, a fleet absent from it has none. The served records carry these keys.
\<close>

theorem summary_one_row_per_fleet:
  "distinct (map summary_fleet_id (summary df)) \<and>
   set (map summary_fleet_id (summary df)) = fleet_id ` set df \<and>
   (\<exists>rows. body (fleet_summary_on df) = PList rows \<and>
      map (field ''fleet_id'') rows = map (Some \<circ> PStr \<circ> summary_fleet_id) (summary df))"
  by (simp add: summary_ids set_group_keys distinct_group_keys fleet_summary_on_def jsonify_def
      summary_dict_def comp_def)

text \<open>The literal table: three fleets, three summary rows.\<close>

theorem summary_one_row_per_fleet_witness:
  "map summary_fleet_id (summary fleet_dataset) = [''CH-147'', ''CP-140'', ''F-18''] \<and>
   fleet_id ` set fleet_dataset = {''CH-147'', ''CP-140'', ''F-18''}"
  using summary_one_row_per_fleet [of fleet_dataset]
  by (simp add: summary_ids group_keys_dataset)




text \<open>
  C9. The health check answers with status 200 and the body
  \<open>{"status": "online", "message": "Fleet Dashboard API"}\<close>; the handler takes nothing from
  the request, so this is its answer to every request routed to it.
\<close>

theorem home_response:
  "status home = 200 \<and>
   body home = PDict [(''status'', PStr ''online''), (''message'', PStr ''Fleet Dashboard API'')]"
  by (simp add: home_def jsonify_def)

text \<open>
  C10. The summary rows are ordered by ascending \<open>fleet_id\<close> on every frame; for the literal
  table the served order is \<open>CH-147\<close>, \<open>CP-140\<close>, \<open>F-18\<close>, which is not the order
  \<open>F-18\<close>, \<open>CH-147\<close>, \<open>CP-140\<close> in which the fleets first appear in the table.
\<close>

theorem fleet_summary_sorted_by_id:
  "sorted (map summary_fleet_id (summary df)) \<and>
   (\<exists>rows. get_fleet_summary = Inr \<lparr>body = PList rows, status = 200\<rparr> \<and>
      map (field ''fleet_id'') rows =
        [Some (PStr ''CH-147''), Some (PStr ''CP-140''), Some (PStr ''F-18'')] \<and>
      map (field ''fleet_id'') rows \<noteq>
        [Some (PStr ''F-18''), Some (PStr ''CH-147''), Some (PStr ''CP-140'')]) \<and>
   remdups (map fleet_id fleet_dataset) = [''F-18'', ''CH-147'', ''CP-140'']"
proof -
  have by_key: "sorted (map summary_fleet_id (summary df))"
    by (simp add: summary_ids sorted_group_keys)
  have served: "\<exists>rows. get_fleet_summary = Inr \<lparr>body = PList rows, status = 200\<rparr> \<and>
      map (field ''fleet_id'') rows =
        [Some (PStr ''CH-147''), Some (PStr ''CP-140''), Some (PStr ''F-18'')] \<and>
      map (field ''fleet_id'') rows \<noteq>
        [Some (PStr ''F-18''), Some (PStr ''CH-147''), Some (PStr ''CP-140'')]"
    by (simp add: handlers_on_dataset fleet_summary_on_def jsonify_def summary_dataset
        summary_dict_def)
  have appearance: "remdups (map fleet_id fleet_dataset) = [''F-18'', ''CH-147'', ''CP-140'']"
    by (simp add: fleet_dataset_rows)
  from by_key served appearance show ?thesis
    by (intro conjI)
qed

end
